theory Spec2Isabelle
  imports Complex_Main "HOL-Library.Word" "HOL-Library.AList"
begin

section \<open>The XKT V6 model builder, tiler and parser\<close>

text \<open>
  A shallow embedding of \<^verbatim>\<open>ConverterV6/Model.js\<close>, \<^verbatim>\<open>Primitive.js\<close>, \<^verbatim>\<open>PrimitiveInstance.js\<close>,
  \<^verbatim>\<open>Entity.js\<close> and of the V6 parser's \<^verbatim>\<open>load\<close>.

  Conventions of the embedding.
  \<^item> JavaScript numbers and the elements of \<^verbatim>\<open>Float32Array\<close>s are exact rationals: rounding,
    infinities and NaN are left out.
  \<^item> \<^verbatim>\<open>Uint16Array\<close>, \<^verbatim>\<open>Int8Array\<close>, \<^verbatim>\<open>Uint8Array\<close> and \<^verbatim>\<open>Uint32Array\<close> elements are machine words.
  \<^item> The objects the builder shares and mutates (primitives, primitive instances, entities)
    live in the model's insertion-ordered lists; a reference to one is its index there, which is
    the \<^verbatim>\<open>primitiveIndex\<close>, \<^verbatim>\<open>primitiveInstanceIndex\<close> or \<^verbatim>\<open>entityIndex\<close> the constructor stores.
  \<^item> A JavaScript object used as a dictionary (\<^verbatim>\<open>this.primitives\<close>, \<^verbatim>\<open>this.entities\<close>) is the list of
    its own properties in creation order; identifiers are taken not to name a member of
    \<^verbatim>\<open>Object.prototype\<close>.
  \<^item> \<^verbatim>\<open>console.error\<close> appends a line to a log that the operations return.
  \<^item> The modules \<^verbatim>\<open>lib/math.js\<close>, \<^verbatim>\<open>lib/geometryCompression.js\<close> and \<^verbatim>\<open>lib/buildEdgeIndices.js\<close>
    are not part of the sources at hand: the functions called from them are the fields of a
    record \<open>Lib\<close> that every operation takes as its first argument.
\<close>

subsection \<open>Numbers, vectors, boxes and typed arrays\<close>

type_synonym num = rat
type_synonym vec4 = "num \<times> num \<times> num \<times> num"
type_synonym aabb3 = "num list"
type_synonym mat4 = "num list"
type_synonym u8 = "8 word"
type_synonym i8 = "8 word"
type_synonym u16 = "16 word"
type_synonym u32 = "32 word"

text \<open>
  A callee that fills a typed array handed to it can overwrite cells but cannot change the
  array's length, and a store past the end is dropped. Such a callee is modelled by the list of
  the stores it makes, in order.
\<close>

definition typedArrayStores :: "'a list \<Rightarrow> (nat \<times> 'a) list \<Rightarrow> 'a list" where
  "typedArrayStores arr stores = foldl (\<lambda>a (i, v). if i < length a then a[i := v] else a) arr stores"

subsection \<open>The external library\<close>

record Lib =
  buildEdgeIndices :: "num list \<Rightarrow> nat list \<Rightarrow> mat4 option \<Rightarrow> num \<Rightarrow> nat list"
  transformPoint4 :: "mat4 \<Rightarrow> vec4 \<Rightarrow> vec4"
  transposeMat4 :: "mat4 \<Rightarrow> mat4"
  inverseMat4 :: "mat4 \<Rightarrow> mat4"
  mat4 :: "mat4"
  AABB3 :: "aabb3"
  collapseAABB3 :: "aabb3 option \<Rightarrow> aabb3"
  expandAABB3 :: "aabb3 \<Rightarrow> aabb3 \<Rightarrow> aabb3"
  expandAABB3Point3 :: "aabb3 \<Rightarrow> vec4 \<Rightarrow> aabb3"
  containsAABB3 :: "aabb3 \<Rightarrow> aabb3 \<Rightarrow> bool"
  getAABB3Center :: "aabb3 \<Rightarrow> num list"
  transformAndOctEncodeNormals :: "mat4 \<Rightarrow> num list \<Rightarrow> nat \<Rightarrow> i8 list \<Rightarrow> nat \<Rightarrow> (nat \<times> i8) list"
  quantizePositions :: "num list \<Rightarrow> nat \<Rightarrow> aabb3 \<Rightarrow> u16 list \<Rightarrow> (nat \<times> u16) list"
  createPositionsDecodeMatrix :: "aabb3 \<Rightarrow> mat4 \<Rightarrow> mat4"

subsection \<open>Primitive, PrimitiveInstance, Entity, Tile, Model\<close>

record Primitive =
  primitiveId :: string
  primitiveIndex :: nat
  color :: "num list"
  opacity :: num
  reused :: bool
  positions :: "num list"
  positionsQuantized :: "u16 list"
  normalsOctEncoded :: "i8 list"
  indices :: "nat list"
  edgeIndices :: "nat list"

text \<open>The constructor of \<^verbatim>\<open>Primitive\<close>: \<^verbatim>\<open>positionsQuantized\<close> is a fresh \<^verbatim>\<open>Uint16Array(positions.length)\<close>.\<close>

definition new_Primitive ::
  "string \<Rightarrow> nat \<Rightarrow> num list \<Rightarrow> num \<Rightarrow> bool \<Rightarrow> num list \<Rightarrow> i8 list \<Rightarrow> nat list \<Rightarrow> nat list \<Rightarrow> Primitive" where
  "new_Primitive pid pidx col opa reu pos noct inds edges =
     \<lparr>primitiveId = pid, primitiveIndex = pidx, color = col, opacity = opa, reused = reu,
      positions = pos, positionsQuantized = replicate (length pos) 0,
      normalsOctEncoded = noct, indices = inds, edgeIndices = edges\<rparr>"

record PrimitiveInstance =
  primitiveInstanceIndex :: nat
  primitive :: nat
  entity :: "nat option"

definition new_PrimitiveInstance :: "nat \<Rightarrow> nat \<Rightarrow> PrimitiveInstance" where
  "new_PrimitiveInstance idx prim = \<lparr>primitiveInstanceIndex = idx, primitive = prim, entity = None\<rparr>"

record Entity =
  entityId :: string
  entityIndex :: nat
  matrix :: mat4
  primitiveInstances :: "nat list"
  aabb :: aabb3
  hasReusedPrimitives :: bool

definition new_Entity :: "string \<Rightarrow> nat \<Rightarrow> mat4 \<Rightarrow> nat list \<Rightarrow> aabb3 \<Rightarrow> bool \<Rightarrow> Entity" where
  "new_Entity eid eidx m insts box hrp =
     \<lparr>entityId = eid, entityIndex = eidx, matrix = m, primitiveInstances = insts, aabb = box,
      hasReusedPrimitives = hrp\<rparr>"

text \<open>\<^verbatim>\<open>Tile.js\<close> is not among the sources; a tile keeps the three arguments of
  \<^verbatim>\<open>new Tile(aabb, decodeMatrix, entities)\<close>.\<close>

record Tile =
  tile_aabb :: aabb3
  tile_decodeMatrix :: mat4
  tile_entities :: "nat list"

record Model =
  instancedPrimitivesDecodeMatrix :: mat4
  primitives :: "(string \<times> nat) list"
  primitivesList :: "Primitive list"
  primitiveInstancesList :: "PrimitiveInstance list"
  entities :: "(string \<times> nat) list"
  entitiesList :: "Entity list"
  tilesList :: "Tile list"

text \<open>The constructor of \<^verbatim>\<open>Model\<close>.\<close>

definition new_Model :: "Lib \<Rightarrow> Model" where
  "new_Model lib =
     \<lparr>instancedPrimitivesDecodeMatrix = mat4 lib, primitives = [], primitivesList = [],
      primitiveInstancesList = [], entities = [], entitiesList = [], tilesList = []\<rparr>"

text \<open>
  The error kinds the specification names for the builder. No path of \<^verbatim>\<open>createPrimitive\<close> or
  \<^verbatim>\<open>createEntity\<close> throws, so both always return on the right of the sum.
\<close>

datatype build_error = DuplicatePrimitive | DuplicateEntity

subsection \<open>createPrimitive\<close>

text \<open>
  The loop that bakes the positions of a primitive that is not reused into world space, three
  numbers at a time; \<^verbatim>\<open>tempVec4a[3]\<close> keeps the 1 it was created with. Position arrays hold whole
  triples; fewer than three trailing numbers are left as they are.
\<close>

fun bakePositions :: "Lib \<Rightarrow> mat4 \<Rightarrow> num list \<Rightarrow> num list" where
  "bakePositions lib m (x # y # z # rest) =
     (case transformPoint4 lib m (x, y, z, 1) of (x', y', z', w') \<Rightarrow> x' # y' # z' # bakePositions lib m rest)"
| "bakePositions lib m rest = rest"

definition createPrimitive ::
  "Lib \<Rightarrow> string \<Rightarrow> bool \<Rightarrow> mat4 \<Rightarrow> num list \<Rightarrow> num \<Rightarrow> num list \<Rightarrow> num list \<Rightarrow> nat list \<Rightarrow> Model
     \<Rightarrow> build_error + (Model \<times> nat)" where
  "createPrimitive lib pid reu modelingMatrix col opa pos normals inds this =
     (let edges = buildEdgeIndices lib pos inds None 10;
          pos' = (if \<not> reu then bakePositions lib modelingMatrix pos else pos);
          modelNormalMatrix = inverseMat4 lib (transposeMat4 lib modelingMatrix);
          fresh = replicate (length normals) (0 :: i8);
          noct = typedArrayStores fresh
                   (transformAndOctEncodeNormals lib modelNormalMatrix normals (length normals) fresh 0);
          pidx = length (primitivesList this);
          p = new_Primitive pid pidx col opa reu pos' noct inds edges
      in Inr (this\<lparr>primitives := AList.update pid pidx (primitives this),
                   primitivesList := primitivesList this @ [p]\<rparr>, pidx))"

subsection \<open>createEntity\<close>

text \<open>The two loops that grow the entity's box over the positions of one primitive.\<close>

fun expandByTransformed :: "Lib \<Rightarrow> mat4 \<Rightarrow> aabb3 \<Rightarrow> num list \<Rightarrow> aabb3" where
  "expandByTransformed lib m box (x # y # z # rest) =
     expandByTransformed lib m (expandAABB3Point3 lib box (transformPoint4 lib m (x, y, z, 1))) rest"
| "expandByTransformed lib m box rest = box"

fun expandByPositions :: "Lib \<Rightarrow> aabb3 \<Rightarrow> num list \<Rightarrow> aabb3" where
  "expandByPositions lib box (x # y # z # rest) =
     expandByPositions lib (expandAABB3Point3 lib box (x, y, z, 1)) rest"
| "expandByPositions lib box rest = box"

text \<open>
  The state of the loop over \<^verbatim>\<open>primitiveIds\<close>: the instances made so far for the entity, the
  entity's box, the model's list of instances, and the console.
\<close>

record EntityLoop =
  el_instances :: "nat list"
  el_aabb :: aabb3
  el_instancesList :: "PrimitiveInstance list"
  el_console :: "string list"

definition entityLoopStep :: "Lib \<Rightarrow> Model \<Rightarrow> mat4 \<Rightarrow> bool \<Rightarrow> EntityLoop \<Rightarrow> string \<Rightarrow> EntityLoop" where
  "entityLoopStep lib this modelingMatrix hrp st pid =
     (case map_of (primitives this) pid of
        None \<Rightarrow> st\<lparr>el_console := el_console st @ [''primitive not found: '' @ pid]\<rparr>
      | Some pref \<Rightarrow>
          (let pos = positions (primitivesList this ! pref);
               box = (if hrp then expandByTransformed lib modelingMatrix (el_aabb st) pos
                      else expandByPositions lib (el_aabb st) pos);
               idx = length (el_instancesList st)
           in st\<lparr>el_instances := el_instances st @ [idx], el_aabb := box,
                  el_instancesList := el_instancesList st @ [new_PrimitiveInstance idx pref]\<rparr>))"

definition setEntity :: "nat \<Rightarrow> PrimitiveInstance list \<Rightarrow> nat list \<Rightarrow> PrimitiveInstance list" where
  "setEntity eidx store refs = foldl (\<lambda>s r. s[r := (s ! r)\<lparr>entity := Some eidx\<rparr>]) store refs"

definition createEntity ::
  "Lib \<Rightarrow> string \<Rightarrow> mat4 \<Rightarrow> string list \<Rightarrow> bool \<Rightarrow> Model
     \<Rightarrow> build_error + (Model \<times> nat \<times> string list)" where
  "createEntity lib eid modelingMatrix primitiveIds hrp this =
     (let st0 = \<lparr>el_instances = [], el_aabb = collapseAABB3 lib (Some (AABB3 lib)),
                 el_instancesList = primitiveInstancesList this, el_console = []\<rparr>;
          st = foldl (entityLoopStep lib this modelingMatrix hrp) st0 primitiveIds;
          eidx = length (entitiesList this);
          e = new_Entity eid eidx modelingMatrix (el_instances st) (el_aabb st) hrp
      in Inr (this\<lparr>primitiveInstancesList := setEntity eidx (el_instancesList st) (el_instances st),
                   entities := AList.update eid eidx (entities this),
                   entitiesList := entitiesList this @ [e]\<rparr>, eidx, el_console st))"

subsection \<open>Enumerating a JavaScript object\<close>

text \<open>
  \<^verbatim>\<open>for (let entityId in this.entities)\<close> enumerates the own property keys of the object: first
  the keys that are array indices (canonical decimal numerals below \<open>2^32 - 1\<close>) in ascending
  numeric order, then every other key in the order in which the property was created.
  Assigning to a key that exists keeps the key's place (\<open>AList.update\<close>).
\<close>

definition isDigit :: "char \<Rightarrow> bool" where
  "isDigit c = (c \<in> set ''0123456789'')"

definition decimalValue :: "string \<Rightarrow> nat" where
  "decimalValue s = foldl (\<lambda>n c. 10 * n + (of_char c - 48)) 0 s"

definition isArrayIndex :: "string \<Rightarrow> bool" where
  "isArrayIndex s =
     (s \<noteq> [] \<and> list_all isDigit s \<and> (s = ''0'' \<or> hd s \<noteq> CHR ''0'') \<and> decimalValue s < 2 ^ 32 - 1)"

definition forInKeys :: "(string \<times> 'a) list \<Rightarrow> string list" where
  "forInKeys obj =
     (let ks = map fst obj
      in sort_key decimalValue (filter isArrayIndex ks) @ filter (\<lambda>k. \<not> isArrayIndex k) ks)"

text \<open>The values \<^verbatim>\<open>obj[key]\<close> read in a \<^verbatim>\<open>for ... in\<close> loop over \<^verbatim>\<open>obj\<close>, in the order of the loop.\<close>

definition forInValues :: "(string \<times> 'a) list \<Rightarrow> 'a list" where
  "forInValues obj = List.map_filter (map_of obj) (forInKeys obj)"

subsection \<open>The kd-tree\<close>

text \<open>
  \<^verbatim>\<open>KDNode.js\<close> is not among the sources; from its uses a node has the box it was constructed
  with, and \<^verbatim>\<open>left\<close>, \<^verbatim>\<open>right\<close> and \<^verbatim>\<open>entities\<close> that are unset until \<^verbatim>\<open>Model\<close> assigns them.
\<close>

datatype KDNode =
  KDNode (kd_aabb: aabb3) (kd_left: "KDNode option") (kd_right: "KDNode option")
    (kd_entities: "nat list option")

definition new_KDNode :: "aabb3 \<Rightarrow> KDNode" where
  "new_KDNode box = KDNode box None None None"

definition KD_TREE_MAX_DEPTH :: nat where
  "KD_TREE_MAX_DEPTH = 5"

text \<open>\<^verbatim>\<open>kdNode.entities = kdNode.entities || []; kdNode.entities.push(entity)\<close>\<close>

definition pushEntity :: "nat list option \<Rightarrow> nat \<Rightarrow> nat list option" where
  "pushEntity ents e = Some ((case ents of None \<Rightarrow> [] | Some es \<Rightarrow> es) @ [e])"

text \<open>The choice of \<^verbatim>\<open>dim\<close> from \<^verbatim>\<open>kdTreeDimLength\<close> (lines 295 to 307).\<close>

definition kdTreeDimLength :: "aabb3 \<Rightarrow> num list" where
  "kdTreeDimLength nodeAABB =
     [nodeAABB ! 3 - nodeAABB ! 0, nodeAABB ! 4 - nodeAABB ! 1, nodeAABB ! 5 - nodeAABB ! 2]"

definition splitDim :: "aabb3 \<Rightarrow> nat" where
  "splitDim nodeAABB =
     (let len = kdTreeDimLength nodeAABB;
          kdim = 0;
          kdim = (if len ! 1 > len ! kdim then 1 else kdim);
          kdim = (if len ! 2 > len ! kdim then 2 else kdim)
      in kdim)"

text \<open>\<^verbatim>\<open>aabbLeft\<close> and \<^verbatim>\<open>aabbRight\<close>: a copy of the node's box with one bound moved to the middle.\<close>

definition aabbLeft :: "aabb3 \<Rightarrow> nat \<Rightarrow> aabb3" where
  "aabbLeft nodeAABB kdim = nodeAABB[kdim + 3 := (nodeAABB ! kdim + nodeAABB ! (kdim + 3)) / 2]"

definition aabbRight :: "aabb3 \<Rightarrow> nat \<Rightarrow> aabb3" where
  "aabbRight nodeAABB kdim = nodeAABB[kdim := (nodeAABB ! kdim + nodeAABB ! (kdim + 3)) / 2]"

text \<open>
  \<^verbatim>\<open>_insertEntityIntoKDTree\<close>. The source mutates the node and returns early after a recursive
  call; the model returns the node as it is after the call. \<open>left1\<close> and \<open>right1\<close> are
  \<^verbatim>\<open>kdNode.left\<close> and \<^verbatim>\<open>kdNode.right\<close> once the two \<^verbatim>\<open>if (!kdNode.left)\<close>, \<^verbatim>\<open>if (!kdNode.right)\<close>
  blocks have created what was missing.
\<close>

function insertEntityIntoKDTree :: "Lib \<Rightarrow> Model \<Rightarrow> KDNode \<Rightarrow> nat \<Rightarrow> nat \<Rightarrow> nat \<Rightarrow> KDNode" where
  "insertEntityIntoKDTree lib this kdNode ent depth maxKDTreeDepth =
     (let nodeAABB = kd_aabb kdNode;
          entityAABB = aabb (entitiesList this ! ent)
      in if depth \<ge> maxKDTreeDepth then
           KDNode (expandAABB3 lib nodeAABB entityAABB) (kd_left kdNode) (kd_right kdNode)
             (pushEntity (kd_entities kdNode) ent)
         else
           (case (case kd_left kdNode of None \<Rightarrow> None
                  | Some l \<Rightarrow> if containsAABB3 lib (kd_aabb l) entityAABB then Some l else None) of
              Some l \<Rightarrow>
                KDNode nodeAABB
                  (Some (insertEntityIntoKDTree lib this l ent (depth + 1) maxKDTreeDepth))
                  (kd_right kdNode) (kd_entities kdNode)
            | None \<Rightarrow>
           (case (case kd_right kdNode of None \<Rightarrow> None
                  | Some r \<Rightarrow> if containsAABB3 lib (kd_aabb r) entityAABB then Some r else None) of
              Some r \<Rightarrow>
                KDNode nodeAABB (kd_left kdNode)
                  (Some (insertEntityIntoKDTree lib this r ent (depth + 1) maxKDTreeDepth))
                  (kd_entities kdNode)
            | None \<Rightarrow>
           (let kdim = splitDim nodeAABB
            in if kd_left kdNode = None \<and> containsAABB3 lib (aabbLeft nodeAABB kdim) entityAABB then
                 KDNode nodeAABB
                   (Some (insertEntityIntoKDTree lib this (new_KDNode (aabbLeft nodeAABB kdim)) ent
                            (depth + 1) maxKDTreeDepth))
                   (kd_right kdNode) (kd_entities kdNode)
               else
                 (let left1 = (case kd_left kdNode of None \<Rightarrow> Some (new_KDNode (aabbLeft nodeAABB kdim))
                               | Some l \<Rightarrow> Some l)
                  in if kd_right kdNode = None \<and> containsAABB3 lib (aabbRight nodeAABB kdim) entityAABB then
                       KDNode nodeAABB left1
                         (Some (insertEntityIntoKDTree lib this (new_KDNode (aabbRight nodeAABB kdim)) ent
                                  (depth + 1) maxKDTreeDepth))
                         (kd_entities kdNode)
                     else
                       (let right1 = (case kd_right kdNode of
                                        None \<Rightarrow> Some (new_KDNode (aabbRight nodeAABB kdim))
                                      | Some r \<Rightarrow> Some r)
                        in KDNode (expandAABB3 lib nodeAABB entityAABB) left1 right1
                             (pushEntity (kd_entities kdNode) ent)))))))"
  by pat_completeness auto
termination
  by (relation "measure (\<lambda>(lib, this, kdNode, ent, depth, maxKDTreeDepth). maxKDTreeDepth - depth)") auto

declare insertEntityIntoKDTree.simps [simp del]

text \<open>\<^verbatim>\<open>_createKDTree\<close>: both loops enumerate the object \<^verbatim>\<open>this.entities\<close>.\<close>

definition createKDTree :: "Lib \<Rightarrow> Model \<Rightarrow> KDNode" where
  "createKDTree lib this =
     (let box = foldl (\<lambda>b ent. expandAABB3 lib b (aabb (entitiesList this ! ent)))
                  (collapseAABB3 lib None) (forInValues (entities this));
          rootKDNode = new_KDNode box
      in foldl (\<lambda>node ent. insertEntityIntoKDTree lib this node ent (0 + 1) KD_TREE_MAX_DEPTH)
           rootKDNode (forInValues (entities this)))"

subsection \<open>Tiles\<close>

text \<open>
  The body of the loop over the primitive instances of an entity in \<^verbatim>\<open>_createTileFromEntities\<close>:
  \<^verbatim>\<open>quantizePositions\<close> fills the \<^verbatim>\<open>positionsQuantized\<close> of a primitive that is not reused.
\<close>

definition quantizeInstance :: "Lib \<Rightarrow> Model \<Rightarrow> aabb3 \<Rightarrow> Primitive list \<Rightarrow> nat \<Rightarrow> Primitive list" where
  "quantizeInstance lib this box prims j =
     (let pref = primitive (primitiveInstancesList this ! j);
          p = prims ! pref
      in if \<not> reused p then
           prims[pref := p\<lparr>positionsQuantized :=
             typedArrayStores (positionsQuantized p)
               (quantizePositions lib (positions p) (length (positions p)) box (positionsQuantized p))\<rparr>]
         else prims)"

definition createTileFromEntities :: "Lib \<Rightarrow> nat list \<Rightarrow> aabb3 \<Rightarrow> Model \<Rightarrow> Model" where
  "createTileFromEntities lib ents box0 this =
     (let box = [-1000, -1000, -1000, 1000, 1000, 1000];
          tileCenter = getAABB3Center lib box;
          prims = foldl (\<lambda>ps ent. foldl (quantizeInstance lib this box) ps
                                    (primitiveInstances (entitiesList this ! ent)))
                    (primitivesList this) ents;
          positionsAABB = box;
          decodeMatrix = createPositionsDecodeMatrix lib positionsAABB (mat4 lib);
          tile = \<lparr>tile_aabb = box, tile_decodeMatrix = decodeMatrix, tile_entities = ents\<rparr>
      in this\<lparr>primitivesList := prims, tilesList := tilesList this @ [tile]\<rparr>)"

fun createTilesFromKDNode :: "Lib \<Rightarrow> KDNode \<Rightarrow> Model \<Rightarrow> Model" where
  "createTilesFromKDNode lib (KDNode box l r ents) this =
     (let this1 = (case ents of None \<Rightarrow> this
                   | Some es \<Rightarrow> if length es > 0 then createTileFromEntities lib es box this else this);
          this2 = (case l of None \<Rightarrow> this1 | Some lnode \<Rightarrow> createTilesFromKDNode lib lnode this1)
      in (case r of None \<Rightarrow> this2 | Some rnode \<Rightarrow> createTilesFromKDNode lib rnode this2))"

definition createTilesFromKDTree :: "Lib \<Rightarrow> KDNode \<Rightarrow> Model \<Rightarrow> Model" where
  "createTilesFromKDTree lib rootKDNode this = createTilesFromKDNode lib rootKDNode this"

definition createTiles :: "Lib \<Rightarrow> Model \<Rightarrow> Model" where
  "createTiles lib this = createTilesFromKDTree lib (createKDTree lib this) this"

section \<open>The parser\<close>

text \<open>
  \<^verbatim>\<open>load\<close> of the V6 parser, from the inflated element streams to the calls it makes on the
  scene builder (\<^verbatim>\<open>performanceModel\<close>), recorded in order with the arguments as they are at
  the time of the call. \<^verbatim>\<open>eachEntityId\<close> is the array that \<^verbatim>\<open>JSON.parse\<close> returned. The arguments
  \<^verbatim>\<open>viewer\<close> and \<^verbatim>\<open>options\<close> are not used by \<^verbatim>\<open>load\<close>. \<^verbatim>\<open>utils.apply\<close> merges the configuration
  literal with the empty \<^verbatim>\<open>meshDefaults\<close> (or \<^verbatim>\<open>entityDefaults\<close>), so the call receives the keys of the
  literal.
\<close>

record InflatedData =
  xkt_positions :: "u16 list"
  xkt_normals :: "i8 list"
  xkt_indices :: "u32 list"
  xkt_edgeIndices :: "u32 list"
  xkt_matrices :: "num list"
  xkt_instancedPrimitivesDecodeMatrix :: "num list"
  xkt_eachPrimitivePositionsAndNormalsPortion :: "u32 list"
  xkt_eachPrimitiveIndicesPortion :: "u32 list"
  xkt_eachPrimitiveEdgeIndicesPortion :: "u32 list"
  xkt_eachPrimitiveColorAndOpacity :: "u8 list"
  xkt_primitiveInstances :: "u32 list"
  xkt_eachEntityId :: "string list"
  xkt_eachEntityPrimitiveInstancesPortion :: "u32 list"
  xkt_eachEntityMatricesPortion :: "u32 list"
  xkt_eachTileAABB :: "num list"
  xkt_eachTileDecodeMatrix :: "num list"
  xkt_eachTileEntitiesPortion :: "u32 list"

subsection \<open>Reading arrays\<close>

text \<open>\<^verbatim>\<open>arr[i]\<close>: \<open>None\<close> is \<^verbatim>\<open>undefined\<close>, the value of a read past the end or at an undefined index.\<close>

definition elementAt :: "'a list \<Rightarrow> nat option \<Rightarrow> 'a option" where
  "elementAt arr i = (case i of None \<Rightarrow> None | Some k \<Rightarrow> if k < length arr then Some (arr ! k) else None)"

text \<open>
  \<^verbatim>\<open>arr.subarray(begin, end)\<close> and \<^verbatim>\<open>arr.slice(begin, end)\<close> with both bounds numbers that are not
  negative: the bounds are clamped to the length.
\<close>

definition subarray :: "'a list \<Rightarrow> nat \<Rightarrow> nat \<Rightarrow> 'a list" where
  "subarray arr b e =
     (let n = length arr; b' = min b n; e' = min e n in take (e' - b') (drop b' arr))"

text \<open>
  The slice of a primitive in a concatenated stream: \<^verbatim>\<open>stream.subarray(portion[primitiveIndex],
  atLastPrimitive ? stream.length : portion[primitiveIndex + 1])\<close>. An undefined \<^verbatim>\<open>begin\<close> is 0 and
  an undefined \<^verbatim>\<open>end\<close> is the length.
\<close>

definition primitiveSlice :: "'a list \<Rightarrow> u32 list \<Rightarrow> nat option \<Rightarrow> bool \<Rightarrow> 'a list" where
  "primitiveSlice stream portion pidx atLastPrimitive =
     subarray stream
       (case elementAt portion pidx of None \<Rightarrow> 0 | Some b \<Rightarrow> unat b)
       (if atLastPrimitive then length stream
        else (case elementAt portion (map_option Suc pidx) of
                None \<Rightarrow> length stream | Some e \<Rightarrow> unat e))"

text \<open>\<^verbatim>\<open>for (let i = first; i < last; i++)\<close>: no iteration when a bound is undefined.\<close>

definition forRange :: "nat option \<Rightarrow> nat option \<Rightarrow> nat list" where
  "forRange lo hi =
     (case lo of None \<Rightarrow> [] | Some a \<Rightarrow> (case hi of None \<Rightarrow> [] | Some b \<Rightarrow> [a..<b]))"

text \<open>The decimal numeral that \<^verbatim>\<open>"geometry" + primitiveIndex\<close> appends.\<close>

fun decimalString :: "nat \<Rightarrow> string" where
  "decimalString n =
     (if n < 10 then [char_of (48 + n)] else decimalString (n div 10) @ [char_of (48 + n mod 10)])"

declare decimalString.simps [simp del]

subsection \<open>The calls on the scene builder\<close>

record GeometryCfg =
  geometry_id :: string
  geometry_primitive :: string
  geometry_positions :: "u16 list"
  geometry_normals :: "i8 list"
  geometry_indices :: "u32 list"
  geometry_edgeIndices :: "u32 list"
  geometry_positionsDecodeMatrix :: "num list"

text \<open>A key that the configuration literal does not have is \<open>None\<close>. In \<^verbatim>\<open>color\<close> and \<^verbatim>\<open>opacity\<close>,
  a number that is \<open>None\<close> is the NaN that dividing \<^verbatim>\<open>undefined\<close> gives.\<close>

record MeshCfg =
  mesh_id :: nat
  mesh_geometryId :: "string option"
  mesh_matrix :: "num list option"
  mesh_primitive :: "string option"
  mesh_positions :: "u16 list option"
  mesh_normals :: "i8 list option"
  mesh_indices :: "u32 list option"
  mesh_edgeIndices :: "u32 list option"
  mesh_positionsDecodeMatrix :: "num list option"
  mesh_color :: "num option list option"
  mesh_opacity :: "num option option"

record EntityCfg =
  entity_id :: "string option"
  entity_isObject :: bool
  entity_meshIds :: "nat list"

datatype call = CreateGeometry GeometryCfg | CreateMesh MeshCfg | CreateEntity EntityCfg

record LoadState =
  geometryCreated :: "(string \<times> bool) list"
  nextMeshId :: nat
  calls :: "call list"

subsection \<open>load\<close>

text \<open>\<^verbatim>\<open>decompressColor\<close>, which reads three cells of the array it is given.\<close>

definition decompressColor :: "u8 list \<Rightarrow> num option list" where
  "decompressColor col =
     map (\<lambda>k. map_option (\<lambda>c. of_nat (unat c) / 255) (elementAt col (Some k))) [0, 1, 2]"

text \<open>The histogram \<^verbatim>\<open>primitiveInstanceCounts\<close>: a \<^verbatim>\<open>Uint32Array\<close>, whose cells wrap around and
  which drops a store past its end.\<close>

definition countInstances :: "nat \<Rightarrow> u32 list \<Rightarrow> u32 list" where
  "countInstances numPrimitives instanceStream =
     foldl (\<lambda>counts primitiveIndex.
              if unat primitiveIndex < length counts
              then counts[unat primitiveIndex := counts ! unat primitiveIndex + 1] else counts)
       (replicate numPrimitives 0) instanceStream"

text \<open>The body of the loop over the primitive instances of an entity. The accumulator is the
  state of \<^verbatim>\<open>load\<close> with the entity's \<^verbatim>\<open>meshIds\<close>.\<close>

definition loadInstance ::
  "InflatedData \<Rightarrow> u32 list \<Rightarrow> num list \<Rightarrow> num list \<Rightarrow> LoadState \<times> nat list \<Rightarrow> nat
     \<Rightarrow> LoadState \<times> nat list" where
  "loadInstance d primitiveInstanceCounts tileDecodeMatrix entityMatrix acc primitiveInstancesIndex =
     (let st = fst acc; meshIds = snd acc;
          numPrimitives = length (xkt_eachPrimitivePositionsAndNormalsPortion d);
          primitiveIndex = map_option unat
            (elementAt (xkt_primitiveInstances d) (Some primitiveInstancesIndex));
          primitiveInstanceCount = elementAt primitiveInstanceCounts primitiveIndex;
          isInstancedPrimitive = (case primitiveInstanceCount of None \<Rightarrow> False | Some c \<Rightarrow> c > 1);
          atLastPrimitive = (case primitiveIndex of None \<Rightarrow> False | Some k \<Rightarrow> k + 1 = numPrimitives);
          primitivePositions = primitiveSlice (xkt_positions d)
            (xkt_eachPrimitivePositionsAndNormalsPortion d) primitiveIndex atLastPrimitive;
          primitiveNormals = primitiveSlice (xkt_normals d)
            (xkt_eachPrimitivePositionsAndNormalsPortion d) primitiveIndex atLastPrimitive;
          primitiveIndices = primitiveSlice (xkt_indices d)
            (xkt_eachPrimitiveIndicesPortion d) primitiveIndex atLastPrimitive;
          primitiveEdgeIndices = primitiveSlice (xkt_edgeIndices d)
            (xkt_eachPrimitiveEdgeIndicesPortion d) primitiveIndex atLastPrimitive;
          col = decompressColor
            (case primitiveIndex of None \<Rightarrow> []
             | Some k \<Rightarrow> subarray (xkt_eachPrimitiveColorAndOpacity d) (k * 4) (k * 4 + 3));
          opa = map_option (\<lambda>c. of_nat (unat c) / 255)
            (elementAt (xkt_eachPrimitiveColorAndOpacity d) (map_option (\<lambda>k. k * 4 + 3) primitiveIndex));
          meshId = nextMeshId st;
          st = st\<lparr>nextMeshId := nextMeshId st + 1\<rparr>;
          st = (if isInstancedPrimitive then
                  (let geometryId = ''geometry'' @ (case primitiveIndex of None \<Rightarrow> ''undefined''
                                                     | Some k \<Rightarrow> decimalString k);
                       st = (if map_of (geometryCreated st) geometryId \<noteq> Some True then
                               st\<lparr>calls := calls st @ [CreateGeometry
                                     \<lparr>geometry_id = geometryId, geometry_primitive = ''triangles'',
                                      geometry_positions = primitivePositions,
                                      geometry_normals = primitiveNormals,
                                      geometry_indices = primitiveIndices,
                                      geometry_edgeIndices = primitiveEdgeIndices,
                                      geometry_positionsDecodeMatrix =
                                        xkt_instancedPrimitivesDecodeMatrix d\<rparr>],
                                  geometryCreated := AList.update geometryId True (geometryCreated st)\<rparr>
                             else st)
                   in st\<lparr>calls := calls st @ [CreateMesh
                            \<lparr>mesh_id = meshId, mesh_geometryId = Some geometryId,
                             mesh_matrix = Some entityMatrix, mesh_primitive = None,
                             mesh_positions = None, mesh_normals = None, mesh_indices = None,
                             mesh_edgeIndices = None, mesh_positionsDecodeMatrix = None,
                             mesh_color = None, mesh_opacity = None\<rparr>]\<rparr>)
                else
                  st\<lparr>calls := calls st @ [CreateMesh
                       \<lparr>mesh_id = meshId, mesh_geometryId = None, mesh_matrix = None,
                        mesh_primitive = Some ''triangles'',
                        mesh_positions = Some primitivePositions,
                        mesh_normals = Some primitiveNormals,
                        mesh_indices = Some primitiveIndices,
                        mesh_edgeIndices = Some primitiveEdgeIndices,
                        mesh_positionsDecodeMatrix = Some tileDecodeMatrix,
                        mesh_color = Some col, mesh_opacity = Some opa\<rparr>]\<rparr>)
      in (st, meshIds @ [meshId]))"

text \<open>The body of the loop over the entities of a tile.\<close>

definition loadEntity :: "InflatedData \<Rightarrow> u32 list \<Rightarrow> num list \<Rightarrow> LoadState \<Rightarrow> nat \<Rightarrow> LoadState" where
  "loadEntity d primitiveInstanceCounts tileDecodeMatrix st tileEntityIndex =
     (let numEntities = length (xkt_eachEntityId d);
          entityId = elementAt (xkt_eachEntityId d) (Some tileEntityIndex);
          entityMatrixIndex = elementAt (xkt_eachEntityMatricesPortion d) (Some tileEntityIndex);
          entityMatrix = (case entityMatrixIndex of None \<Rightarrow> []
                          | Some i \<Rightarrow> subarray (xkt_matrices d) (unat i) (unat i + 16));
          atLastTileEntity = (tileEntityIndex + 1 = numEntities);
          firstPrimitiveInstanceIndex = map_option unat
            (elementAt (xkt_eachEntityPrimitiveInstancesPortion d) (Some tileEntityIndex));
          lastPrimitiveInstanceIndex =
            (if atLastTileEntity then Some (length (xkt_primitiveInstances d))
             else map_option unat
                    (elementAt (xkt_eachEntityPrimitiveInstancesPortion d) (Some (tileEntityIndex + 1))));
          acc = foldl (loadInstance d primitiveInstanceCounts tileDecodeMatrix entityMatrix) (st, [])
                  (forRange firstPrimitiveInstanceIndex lastPrimitiveInstanceIndex);
          st = fst acc; meshIds = snd acc
      in if length meshIds > 0 then
           st\<lparr>calls := calls st @ [CreateEntity
                \<lparr>entity_id = entityId, entity_isObject = True, entity_meshIds = meshIds\<rparr>]\<rparr>
         else st)"

text \<open>The body of the loop over the tiles. \<^verbatim>\<open>tileAABB\<close> and \<^verbatim>\<open>tileCenter\<close> are computed there and
  not used.\<close>

definition loadTile :: "InflatedData \<Rightarrow> u32 list \<Rightarrow> LoadState \<Rightarrow> nat \<Rightarrow> LoadState" where
  "loadTile d primitiveInstanceCounts st tileIndex =
     (let numEntities = length (xkt_eachEntityId d);
          numTiles = length (xkt_eachTileEntitiesPortion d);
          atLastTile = (tileIndex + 1 = numTiles);
          firstTileEntityIndex = map_option unat
            (elementAt (xkt_eachTileEntitiesPortion d) (Some tileIndex));
          lastTileEntityIndex =
            (if atLastTile then Some numEntities
             else map_option unat (elementAt (xkt_eachTileEntitiesPortion d) (Some (tileIndex + 1))));
          tileDecodeMatrix = subarray (xkt_eachTileDecodeMatrix d) (tileIndex * 16) (tileIndex * 16 + 16)
      in foldl (loadEntity d primitiveInstanceCounts tileDecodeMatrix) st
           (forRange firstTileEntityIndex lastTileEntityIndex))"

definition load :: "InflatedData \<Rightarrow> call list" where
  "load d =
     (let numPrimitives = length (xkt_eachPrimitivePositionsAndNormalsPortion d);
          numTiles = length (xkt_eachTileEntitiesPortion d);
          primitiveInstanceCounts = countInstances numPrimitives (xkt_primitiveInstances d);
          st0 = \<lparr>geometryCreated = [], nextMeshId = 0, calls = []\<rparr>
      in calls (foldl (loadTile d primitiveInstanceCounts) st0 [0..<numTiles]))"

section \<open>A reference library\<close>

text \<open>
  An instance of \<open>Lib\<close> on which the operations can be run on concrete inputs. The theorems
  below that hold of every library do not depend on it.
\<close>

text \<open>Modelled from the spec: \<^verbatim>\<open>math.collapseAABB3\<close>, \<^verbatim>\<open>expandAABB3\<close>, \<^verbatim>\<open>expandAABB3Point3\<close>,
  \<^verbatim>\<open>containsAABB3\<close> and \<^verbatim>\<open>getAABB3Center\<close> of \<^verbatim>\<open>lib/math.js\<close>, on the glossary's box of six numbers
  \<open>(xmin, ymin, zmin, xmax, ymax, zmax)\<close>: expanding takes the minimum of the lower and the
  maximum of the upper bounds, containing compares them, and the collapsed box is upside down,
  so that expanding it by a box gives that box.\<close>

definition ref_MAX :: num where
  "ref_MAX = 9007199254740991"

definition ref_collapseAABB3 :: "aabb3 option \<Rightarrow> aabb3" where
  "ref_collapseAABB3 box = [ref_MAX, ref_MAX, ref_MAX, - ref_MAX, - ref_MAX, - ref_MAX]"

definition ref_expandAABB3 :: "aabb3 \<Rightarrow> aabb3 \<Rightarrow> aabb3" where
  "ref_expandAABB3 a b =
     [min (a ! 0) (b ! 0), min (a ! 1) (b ! 1), min (a ! 2) (b ! 2),
      max (a ! 3) (b ! 3), max (a ! 4) (b ! 4), max (a ! 5) (b ! 5)]"

definition ref_expandAABB3Point3 :: "aabb3 \<Rightarrow> vec4 \<Rightarrow> aabb3" where
  "ref_expandAABB3Point3 a p =
     (case p of (x, y, z, w) \<Rightarrow>
        [min (a ! 0) x, min (a ! 1) y, min (a ! 2) z, max (a ! 3) x, max (a ! 4) y, max (a ! 5) z])"

definition ref_containsAABB3 :: "aabb3 \<Rightarrow> aabb3 \<Rightarrow> bool" where
  "ref_containsAABB3 a b =
     (a ! 0 \<le> b ! 0 \<and> b ! 3 \<le> a ! 3 \<and> a ! 1 \<le> b ! 1 \<and> b ! 4 \<le> a ! 4 \<and> a ! 2 \<le> b ! 2 \<and> b ! 5 \<le> a ! 5)"

definition ref_getAABB3Center :: "aabb3 \<Rightarrow> num list" where
  "ref_getAABB3Center a = [(a ! 0 + a ! 3) / 2, (a ! 1 + a ! 4) / 2, (a ! 2 + a ! 5) / 2]"

text \<open>Modelled from the spec: \<^verbatim>\<open>geometryCompression.quantizePositions\<close> and
  \<^verbatim>\<open>createPositionsDecodeMatrix\<close>, with \<open>q = round((p - min) / (max - min) * 65535)\<close> clamped to
  \<open>[0, 65535]\<close>, and the decode matrix with scale \<open>(max - min) / 65535\<close> and translation
  \<open>min\<close>, stored by columns.\<close>

definition ref_quantize :: "aabb3 \<Rightarrow> nat \<Rightarrow> num \<Rightarrow> u16" where
  "ref_quantize box axis p =
     word_of_int (max 0 (min 65535
       (round ((p - box ! axis) / (box ! (axis + 3) - box ! axis) * 65535))))"

definition ref_quantizePositions :: "num list \<Rightarrow> nat \<Rightarrow> aabb3 \<Rightarrow> u16 list \<Rightarrow> (nat \<times> u16) list" where
  "ref_quantizePositions pos lenPositions box out =
     map (\<lambda>i. (i, ref_quantize box (i mod 3) (pos ! i))) [0..<min lenPositions (length pos)]"

definition ref_createPositionsDecodeMatrix :: "aabb3 \<Rightarrow> mat4 \<Rightarrow> mat4" where
  "ref_createPositionsDecodeMatrix box m =
     [(box ! 3 - box ! 0) / 65535, 0, 0, 0,
      0, (box ! 4 - box ! 1) / 65535, 0, 0,
      0, 0, (box ! 5 - box ! 2) / 65535, 0,
      box ! 0, box ! 1, box ! 2, 1]"

text \<open>Modelled from the spec: the linear algebra of \<^verbatim>\<open>lib/math.js\<close> that \<^verbatim>\<open>Model.js\<close> calls, on
  matrices of sixteen numbers stored by columns: the product of a matrix and a point, the
  transpose, and the inverse (the adjugate over the determinant).\<close>

definition ref_identityMat4 :: mat4 where
  "ref_identityMat4 = [1, 0, 0, 0, 0, 1, 0, 0, 0, 0, 1, 0, 0, 0, 0, 1]"

definition ref_transformPoint4 :: "mat4 \<Rightarrow> vec4 \<Rightarrow> vec4" where
  "ref_transformPoint4 m p =
     (case p of (x, y, z, w) \<Rightarrow>
        (m ! 0 * x + m ! 4 * y + m ! 8 * z + m ! 12 * w,
         m ! 1 * x + m ! 5 * y + m ! 9 * z + m ! 13 * w,
         m ! 2 * x + m ! 6 * y + m ! 10 * z + m ! 14 * w,
         m ! 3 * x + m ! 7 * y + m ! 11 * z + m ! 15 * w))"

definition ref_transposeMat4 :: "mat4 \<Rightarrow> mat4" where
  "ref_transposeMat4 m =
     [m ! 0, m ! 4, m ! 8, m ! 12, m ! 1, m ! 5, m ! 9, m ! 13,
      m ! 2, m ! 6, m ! 10, m ! 14, m ! 3, m ! 7, m ! 11, m ! 15]"

definition ref_inverseMat4 :: "mat4 \<Rightarrow> mat4" where
  "ref_inverseMat4 m =
     (let a00 = m ! 0; a01 = m ! 1; a02 = m ! 2; a03 = m ! 3;
          a10 = m ! 4; a11 = m ! 5; a12 = m ! 6; a13 = m ! 7;
          a20 = m ! 8; a21 = m ! 9; a22 = m ! 10; a23 = m ! 11;
          a30 = m ! 12; a31 = m ! 13; a32 = m ! 14; a33 = m ! 15;
          b00 = a00 * a11 - a01 * a10; b01 = a00 * a12 - a02 * a10;
          b02 = a00 * a13 - a03 * a10; b03 = a01 * a12 - a02 * a11;
          b04 = a01 * a13 - a03 * a11; b05 = a02 * a13 - a03 * a12;
          b06 = a20 * a31 - a21 * a30; b07 = a20 * a32 - a22 * a30;
          b08 = a20 * a33 - a23 * a30; b09 = a21 * a32 - a22 * a31;
          b10 = a21 * a33 - a23 * a31; b11 = a22 * a33 - a23 * a32;
          dt = b00 * b11 - b01 * b10 + b02 * b09 + b03 * b08 - b04 * b07 + b05 * b06
      in [(a11 * b11 - a12 * b10 + a13 * b09) / dt, (a02 * b10 - a01 * b11 - a03 * b09) / dt,
          (a31 * b05 - a32 * b04 + a33 * b03) / dt, (a22 * b04 - a21 * b05 - a23 * b03) / dt,
          (a12 * b08 - a10 * b11 - a13 * b07) / dt, (a00 * b11 - a02 * b08 + a03 * b07) / dt,
          (a32 * b02 - a30 * b05 - a33 * b01) / dt, (a20 * b05 - a22 * b02 + a23 * b01) / dt,
          (a10 * b10 - a11 * b08 + a13 * b06) / dt, (a01 * b08 - a00 * b10 - a03 * b06) / dt,
          (a30 * b04 - a31 * b02 + a33 * b00) / dt, (a21 * b02 - a20 * b04 - a23 * b00) / dt,
          (a11 * b07 - a10 * b09 - a12 * b06) / dt, (a00 * b09 - a01 * b07 + a02 * b06) / dt,
          (a31 * b01 - a30 * b03 - a32 * b00) / dt, (a20 * b03 - a21 * b01 + a22 * b00) / dt])"

text \<open>Modelled from the spec: \<^verbatim>\<open>geometryCompression.transformAndOctEncodeNormals\<close>, as the
  octahedral projection of the transformed normal with the fold for the lower hemisphere,
  scaled to \<open>-127..127\<close> and rounded with ties away from zero, one pair of cells for each
  normal.\<close>

definition ref_roundAway :: "num \<Rightarrow> int" where
  "ref_roundAway x = (if x < 0 then - \<lfloor>- x + 1 / 2\<rfloor> else \<lfloor>x + 1 / 2\<rfloor>)"

definition ref_octEncode :: "num \<times> num \<times> num \<Rightarrow> i8 \<times> i8" where
  "ref_octEncode n =
     (case n of (x, y, z) \<Rightarrow>
        (let s = \<bar>x\<bar> + \<bar>y\<bar> + \<bar>z\<bar>;
             px = x / s; py = y / s;
             fx = (if z < 0 then (1 - \<bar>py\<bar>) * (if px < 0 then - 1 else 1) else px);
             fy = (if z < 0 then (1 - \<bar>px\<bar>) * (if py < 0 then - 1 else 1) else py)
         in (word_of_int (ref_roundAway (fx * 127)), word_of_int (ref_roundAway (fy * 127)))))"

fun ref_octEncodeNormals :: "mat4 \<Rightarrow> nat \<Rightarrow> num list \<Rightarrow> (nat \<times> i8) list" where
  "ref_octEncodeNormals m k (x # y # z # rest) =
     (case ref_transformPoint4 m (x, y, z, 0) of (x', y', z', w') \<Rightarrow>
        (case ref_octEncode (x', y', z') of (a, b) \<Rightarrow>
           (2 * k, a) # (2 * k + 1, b) # ref_octEncodeNormals m (Suc k) rest))"
| "ref_octEncodeNormals m k rest = []"

definition ref_transformAndOctEncodeNormals ::
  "mat4 \<Rightarrow> num list \<Rightarrow> nat \<Rightarrow> i8 list \<Rightarrow> nat \<Rightarrow> (nat \<times> i8) list" where
  "ref_transformAndOctEncodeNormals m normals lenNormals out lenOut =
     map (\<lambda>(i, v). (lenOut + i, v)) (ref_octEncodeNormals m 0 (take lenNormals normals))"

text \<open>Edge extraction is not modelled: the reference library finds no edges.\<close>

definition refLib :: Lib where
  "refLib =
     \<lparr>buildEdgeIndices = (\<lambda>pos inds m threshold. []),
      transformPoint4 = ref_transformPoint4,
      transposeMat4 = ref_transposeMat4,
      inverseMat4 = ref_inverseMat4,
      mat4 = ref_identityMat4,
      AABB3 = [0, 0, 0, 0, 0, 0],
      collapseAABB3 = ref_collapseAABB3,
      expandAABB3 = ref_expandAABB3,
      expandAABB3Point3 = ref_expandAABB3Point3,
      containsAABB3 = ref_containsAABB3,
      getAABB3Center = ref_getAABB3Center,
      transformAndOctEncodeNormals = ref_transformAndOctEncodeNormals,
      quantizePositions = ref_quantizePositions,
      createPositionsDecodeMatrix = ref_createPositionsDecodeMatrix\<rparr>"

section \<open>Auxiliary definitions for the statements\<close>

text \<open>The model a builder call leaves: the one it returns, or the one it was given had it failed.\<close>

definition modelAfter :: "Model \<Rightarrow> build_error + (Model \<times> 'a) \<Rightarrow> Model" where
  "modelAfter this r = (case r of Inl e \<Rightarrow> this | Inr (m, x) \<Rightarrow> m)"


text \<open>The instances made for the primitives \<open>prefs\<close> when \<open>n\<close> instances exist already.\<close>

definition newInstances :: "nat \<Rightarrow> nat list \<Rightarrow> PrimitiveInstance list" where
  "newInstances n prefs = map (\<lambda>(k, pref). new_PrimitiveInstance k pref) (zip [n..<n + length prefs] prefs)"

text \<open>\<open>ps'\<close> has the primitives of \<open>ps\<close>, with the same flags \<^verbatim>\<open>reused\<close> and the reused ones as they were.\<close>

definition keepsReused :: "Primitive list \<Rightarrow> Primitive list \<Rightarrow> bool" where
  "keepsReused ps ps' =
     (length ps' = length ps \<and>
      (\<forall>k < length ps. reused (ps' ! k) = reused (ps ! k) \<and> (reused (ps ! k) \<longrightarrow> ps' ! k = ps ! k)))"

subsection \<open>The split of a kd-node, in the words of the specification\<close>

text \<open>The extent of a box along axis \<open>k\<close> (0 for x, 1 for y, 2 for z).\<close>

definition axisLength :: "aabb3 \<Rightarrow> nat \<Rightarrow> num" where
  "axisLength box k = box ! (k + 3) - box ! k"

text \<open>\<open>k\<close> is the longest axis of the box, ties broken towards the lower index: no axis is
  longer, and every axis before it is strictly shorter.\<close>

definition isLongestAxis :: "aabb3 \<Rightarrow> nat \<Rightarrow> bool" where
  "isLongestAxis box k =
     (k < 3 \<and> (\<forall>j \<in> {0..<3}. axisLength box j \<le> axisLength box k)
            \<and> (\<forall>j \<in> {0..<k}. axisLength box j < axisLength box k))"




subsection \<open>Building a model\<close>

text \<open>The calls a client makes on a model, and the model they build from a new one.\<close>

datatype command =
  DoCreatePrimitive string bool mat4 "num list" num "num list" "num list" "nat list"
| DoCreateEntity string mat4 "string list" bool

fun run :: "Lib \<Rightarrow> Model \<Rightarrow> command \<Rightarrow> Model" where
  "run lib this (DoCreatePrimitive pid reu m col opa pos nrm inds) =
     modelAfter this (createPrimitive lib pid reu m col opa pos nrm inds this)"
| "run lib this (DoCreateEntity eid m pids hrp) =
     modelAfter this (createEntity lib eid m pids hrp this)"

definition build :: "Lib \<Rightarrow> command list \<Rightarrow> Model" where
  "build lib cmds = foldl (run lib) (new_Model lib) cmds"


subsection \<open>What the parser is to do, in the words of the specification\<close>

text \<open>The configurations of the calls of each kind in a list of calls, in order.\<close>

fun geometryCallsOf :: "call list \<Rightarrow> GeometryCfg list" where
  "geometryCallsOf [] = []"
| "geometryCallsOf (CreateGeometry g # cs) = g # geometryCallsOf cs"
| "geometryCallsOf (c # cs) = geometryCallsOf cs"

fun meshCallsOf :: "call list \<Rightarrow> MeshCfg list" where
  "meshCallsOf [] = []"
| "meshCallsOf (CreateMesh m # cs) = m # meshCallsOf cs"
| "meshCallsOf (c # cs) = meshCallsOf cs"

fun entityCallsOf :: "call list \<Rightarrow> EntityCfg list" where
  "entityCallsOf [] = []"
| "entityCallsOf (CreateEntity e # cs) = e # entityCallsOf cs"
| "entityCallsOf (c # cs) = entityCallsOf cs"

text \<open>The number of primitives of a file.\<close>

definition numPrimitivesOf :: "InflatedData \<Rightarrow> nat" where
  "numPrimitivesOf d = length (xkt_eachPrimitivePositionsAndNormalsPortion d)"



text \<open>The identifier of the geometry of primitive \<open>k\<close>.\<close>

definition geometryIdOf :: "nat \<Rightarrow> string" where
  "geometryIdOf k = ''geometry'' @ decimalString k"

text \<open>The slice of primitive \<open>k\<close> in a concatenated stream.\<close>

definition sliceOf :: "InflatedData \<Rightarrow> 'a list \<Rightarrow> u32 list \<Rightarrow> nat \<Rightarrow> 'a list" where
  "sliceOf d stream portion k = primitiveSlice stream portion (Some k) (k + 1 = numPrimitivesOf d)"

text \<open>The geometry of an instanced primitive: its slices, and the decode matrix of the instanced
  primitives.\<close>

definition geometryOf :: "InflatedData \<Rightarrow> nat \<Rightarrow> GeometryCfg" where
  "geometryOf d k =
     \<lparr>geometry_id = geometryIdOf k, geometry_primitive = ''triangles'',
      geometry_positions = sliceOf d (xkt_positions d) (xkt_eachPrimitivePositionsAndNormalsPortion d) k,
      geometry_normals = sliceOf d (xkt_normals d) (xkt_eachPrimitivePositionsAndNormalsPortion d) k,
      geometry_indices = sliceOf d (xkt_indices d) (xkt_eachPrimitiveIndicesPortion d) k,
      geometry_edgeIndices = sliceOf d (xkt_edgeIndices d) (xkt_eachPrimitiveEdgeIndicesPortion d) k,
      geometry_positionsDecodeMatrix = xkt_instancedPrimitivesDecodeMatrix d\<rparr>"

text \<open>The mesh of an instance of an instanced primitive: a reference to the geometry and the
  entity's matrix.\<close>

definition instancedMeshOf :: "nat \<Rightarrow> nat \<Rightarrow> num list \<Rightarrow> MeshCfg" where
  "instancedMeshOf meshId k entityMatrix =
     \<lparr>mesh_id = meshId, mesh_geometryId = Some (geometryIdOf k), mesh_matrix = Some entityMatrix,
      mesh_primitive = None, mesh_positions = None, mesh_normals = None, mesh_indices = None,
      mesh_edgeIndices = None, mesh_positionsDecodeMatrix = None, mesh_color = None,
      mesh_opacity = None\<rparr>"

text \<open>The mesh of an instance of a single-use primitive: its slices, the tile's decode matrix,
  its color and opacity, and no matrix.\<close>

definition inlineMeshOf :: "InflatedData \<Rightarrow> nat \<Rightarrow> nat \<Rightarrow> num list \<Rightarrow> MeshCfg" where
  "inlineMeshOf d meshId k tileDecodeMatrix =
     \<lparr>mesh_id = meshId, mesh_geometryId = None, mesh_matrix = None,
      mesh_primitive = Some ''triangles'',
      mesh_positions = Some (sliceOf d (xkt_positions d) (xkt_eachPrimitivePositionsAndNormalsPortion d) k),
      mesh_normals = Some (sliceOf d (xkt_normals d) (xkt_eachPrimitivePositionsAndNormalsPortion d) k),
      mesh_indices = Some (sliceOf d (xkt_indices d) (xkt_eachPrimitiveIndicesPortion d) k),
      mesh_edgeIndices = Some (sliceOf d (xkt_edgeIndices d) (xkt_eachPrimitiveEdgeIndicesPortion d) k),
      mesh_positionsDecodeMatrix = Some tileDecodeMatrix,
      mesh_color = Some (map (\<lambda>c. map_option (\<lambda>v. of_nat (unat v) / 255)
                                 (elementAt (xkt_eachPrimitiveColorAndOpacity d) (Some (k * 4 + c))))
                           [0, 1, 2]),
      mesh_opacity = Some (map_option (\<lambda>v. of_nat (unat v) / 255)
                             (elementAt (xkt_eachPrimitiveColorAndOpacity d) (Some (k * 4 + 3))))\<rparr>"



subsection \<open>Example inputs\<close>



text \<open>A modeling matrix that doubles the x coordinate.\<close>

definition exampleScaleX :: mat4 where
  "exampleScaleX = [2, 0, 0, 0, 0, 1, 0, 0, 0, 0, 1, 0, 0, 0, 0, 1]"

text \<open>An entity made of one primitive that lies outside the cube from -1000 to 1000.\<close>

definition exampleFarEntity :: Model where
  "exampleFarEntity =
     (let m0 = new_Model refLib;
          m1 = modelAfter m0 (createPrimitive refLib ''f'' False ref_identityMat4 [1, 0, 0] 1
                 [2000, 2000, 2000, 2001, 2001, 2001] [0, 0, 1, 0, 0, 1] [] m0)
      in modelAfter m1 (createEntity refLib ''far'' ref_identityMat4 [''f''] False m1))"

text \<open>The matrix of a translation, stored by columns.\<close>

definition exampleTranslate :: "num \<Rightarrow> num \<Rightarrow> num \<Rightarrow> mat4" where
  "exampleTranslate x y z = [1, 0, 0, 0, 0, 1, 0, 0, 0, 0, 1, 0, x, y, z, 1]"

text \<open>A reused primitive \<open>bolt\<close> that two entities use, each with a translation of its own.\<close>

definition exampleReusedCommands :: "command list" where
  "exampleReusedCommands =
     [DoCreatePrimitive ''bolt'' True ref_identityMat4 [1, 0, 0] 1 [0, 0, 0, 1, 1, 1] [0, 0, 1, 0, 0, 1] [],
      DoCreateEntity ''A'' (exampleTranslate 100 0 0) [''bolt''] True,
      DoCreateEntity ''B'' (exampleTranslate 0 0 100) [''bolt''] True]"

definition exampleReused :: Model where
  "exampleReused = build refLib exampleReusedCommands"


text \<open>A file with one tile and four entities: \<open>A\<close> and \<open>B\<close> share primitive 0, \<open>D\<close> has no
  instance, and \<open>C\<close> has primitive 1 to itself.\<close>

definition exampleInflated :: InflatedData where
  "exampleInflated =
     \<lparr>xkt_positions = [0, 0, 0, 65535, 65535, 65535, 1, 2, 3],
      xkt_normals = [0, 0, 0, 0, 0, 0, 54, 73, 0],
      xkt_indices = [0, 1, 0, 0, 0, 0],
      xkt_edgeIndices = [0, 1, 0, 0],
      xkt_matrices = exampleTranslate 100 0 0 @ exampleTranslate 0 0 100 @ ref_identityMat4,
      xkt_instancedPrimitivesDecodeMatrix =
        [1 / 65535, 0, 0, 0, 0, 1 / 65535, 0, 0, 0, 0, 1 / 65535, 0, 0, 0, 0, 1],
      xkt_eachPrimitivePositionsAndNormalsPortion = [0, 6],
      xkt_eachPrimitiveIndicesPortion = [0, 3],
      xkt_eachPrimitiveEdgeIndicesPortion = [0, 2],
      xkt_eachPrimitiveColorAndOpacity = [255, 0, 0, 255, 0, 255, 0, 51],
      xkt_primitiveInstances = [0, 0, 1],
      xkt_eachEntityId = [''A'', ''B'', ''D'', ''C''],
      xkt_eachEntityPrimitiveInstancesPortion = [0, 1, 2, 2],
      xkt_eachEntityMatricesPortion = [0, 16, 32, 32],
      xkt_eachTileAABB = [-1000, -1000, -1000, 1000, 1000, 1000],
      xkt_eachTileDecodeMatrix =
        [400 / 13107, 0, 0, 0, 0, 400 / 13107, 0, 0, 0, 0, 400 / 13107, 0, -1000, -1000, -1000, 1],
      xkt_eachTileEntitiesPortion = [0]\<rparr>"


section \<open>Properties of the builder\<close>

subsection \<open>Typed arrays\<close>

lemma length_typedArrayStores [simp]: "length (typedArrayStores arr stores) = length arr"
  unfolding typedArrayStores_def
  by (induction stores arbitrary: arr) (auto split: prod.splits)

subsection \<open>The loop of createEntity\<close>

lemma newInstances_Nil [simp]: "newInstances n [] = []"
  by (simp add: newInstances_def)


lemma length_newInstances [simp]: "length (newInstances n ps) = length ps"
  by (simp add: newInstances_def)









subsection \<open>createPrimitive\<close>

lemma length_bakePositions [simp]: "length (bakePositions lib m pos) = length pos"
  by (induction lib m pos rule: bakePositions.induct) (auto split: prod.splits)

subsection \<open>Running the examples\<close>

lemma floor_rat_divide_numeral [simp]:
  "\<lfloor>(numeral a :: rat) / numeral b\<rfloor> = numeral a div numeral b"
  using floor_divide_of_int_eq [of "numeral a" "numeral b", where ?'a = rat] by simp

lemma floor_rat_divide_neg_numeral [simp]:
  "\<lfloor>- (numeral a :: rat) / numeral b\<rfloor> = - numeral a div numeral b"
  using floor_divide_of_int_eq [of "- numeral a" "numeral b", where ?'a = rat] by simp

lemma floor_rat_one_divide_numeral [simp]:
  "\<lfloor>(1 :: rat) / numeral b\<rfloor> = 1 div numeral b"
  using floor_divide_of_int_eq [of 1 "numeral b", where ?'a = rat] by simp

lemmas ref_eval =
  refLib_def ref_identityMat4_def ref_transposeMat4_def ref_inverseMat4_def
  ref_transformPoint4_def ref_transformAndOctEncodeNormals_def ref_octEncode_def ref_roundAway_def
  ref_collapseAABB3_def ref_expandAABB3_def ref_expandAABB3Point3_def ref_containsAABB3_def
  ref_getAABB3Center_def ref_quantizePositions_def ref_quantize_def
  ref_createPositionsDecodeMatrix_def ref_MAX_def

lemmas builder_eval =
  createPrimitive_def createEntity_def new_Primitive_def new_Entity_def new_PrimitiveInstance_def
  new_Model_def modelAfter_def typedArrayStores_def entityLoopStep_def setEntity_def Let_def




subsection \<open>Duplicate identifiers\<close>



subsection \<open>The length of the oct-encoded normals\<close>




subsection \<open>The frame of the oct-encoded normals\<close>

text \<open>
  Whatever the library, \<^verbatim>\<open>createPrimitive\<close> encodes the normals of a reused primitive as it
  encodes those of a primitive that is not reused: with the inverse of the transpose of the
  modeling matrix.
\<close>

lemma createPrimitive_normals_ignore_reused:
  "normalsOctEncoded (primitivesList (modelAfter this
      (createPrimitive lib pid True mm col opa pos nrm inds this)) ! length (primitivesList this)) =
   normalsOctEncoded (primitivesList (modelAfter this
      (createPrimitive lib pid False mm col opa pos nrm inds this)) ! length (primitivesList this))"
  by (simp add: createPrimitive_def Let_def new_Primitive_def modelAfter_def)

text \<open>
  C4 says that the normals of a reused primitive are oct-encoded untransformed, as the
  documentation of \<^verbatim>\<open>createPrimitive\<close> and of \<^verbatim>\<open>Primitive.normalsOctEncoded\<close> does. The code
  transforms them all the same: with the reference library, a reused primitive with the normal
  \<open>(3/5, 4/5, 0)\<close> and a modeling matrix that doubles x gets the cells \<open>35, 92\<close>, which encode
  the transformed normal, where the untransformed normal encodes as \<open>54, 73\<close>.
\<close>

theorem C4_reused_normals_are_transformed:
  "normalsOctEncoded (primitivesList (modelAfter (new_Model refLib)
      (createPrimitive refLib ''r'' True exampleScaleX [1, 0, 0] 1 [0, 0, 0] [3 / 5, 4 / 5, 0] []
         (new_Model refLib))) ! 0) = [35, 92, 0]
   \<and> typedArrayStores [0, 0, 0]
        (transformAndOctEncodeNormals refLib (inverseMat4 refLib (transposeMat4 refLib exampleScaleX))
           [3 / 5, 4 / 5, 0] 3 [0, 0, 0] 0) = [35, 92, 0]
   \<and> typedArrayStores [0, 0, 0]
        (transformAndOctEncodeNormals refLib ref_identityMat4 [3 / 5, 4 / 5, 0] 3 [0, 0, 0] 0) = [54, 73, 0]"
  by (simp add: builder_eval ref_eval exampleScaleX_def)

section \<open>Properties of the tiler\<close>

subsection \<open>What \<^verbatim>\<open>createTiles\<close> leaves untouched\<close>

lemma keepsReused_refl: "keepsReused ps ps"
  by (simp add: keepsReused_def)

lemma keepsReused_trans: "keepsReused ps ps' \<Longrightarrow> keepsReused ps' ps'' \<Longrightarrow> keepsReused ps ps''"
  by (auto simp: keepsReused_def)

lemma keepsReused_update:
  "\<not> reused (ps ! i) \<Longrightarrow> reused p = reused (ps ! i) \<Longrightarrow> keepsReused ps (ps[i := p])"
proof -
  assume a: "\<not> reused (ps ! i)" "reused p = reused (ps ! i)"
  have "reused (ps[i := p] ! k) = reused (ps ! k) \<and> (reused (ps ! k) \<longrightarrow> ps[i := p] ! k = ps ! k)"
    if "k < length ps" for k
    using a that by (cases "k = i") simp_all
  then show ?thesis
    by (simp add: keepsReused_def)
qed

lemma keepsReused_quantizeInstance: "keepsReused ps (quantizeInstance lib this box ps j)"
  by (simp add: quantizeInstance_def Let_def keepsReused_refl keepsReused_update)

lemma keepsReused_foldl:
  assumes "\<And>ps x. keepsReused ps (f ps x)"
  shows "keepsReused ps (foldl f ps xs)"
proof (induction xs arbitrary: ps)
  case Nil
  show ?case by (simp add: keepsReused_refl)
next
  case (Cons x xs)
  show ?case
    using keepsReused_trans [OF assms [of ps x] Cons [of "f ps x"]] by simp
qed

lemma createTileFromEntities_tile:
  "tilesList (createTileFromEntities lib ents box this) =
     tilesList this @
       [\<lparr>tile_aabb = [-1000, -1000, -1000, 1000, 1000, 1000],
         tile_decodeMatrix =
           createPositionsDecodeMatrix lib [-1000, -1000, -1000, 1000, 1000, 1000] (mat4 lib),
         tile_entities = ents\<rparr>]"
  by (simp add: createTileFromEntities_def Let_def)

lemma createTileFromEntities_keeps:
  "keepsReused (primitivesList this) (primitivesList (createTileFromEntities lib ents box this))
   \<and> instancedPrimitivesDecodeMatrix (createTileFromEntities lib ents box this) =
       instancedPrimitivesDecodeMatrix this"
  by (simp add: createTileFromEntities_def Let_def keepsReused_foldl keepsReused_quantizeInstance)

lemma createTilesFromKDNode_keeps:
  "keepsReused (primitivesList this) (primitivesList (createTilesFromKDNode lib node this))
   \<and> instancedPrimitivesDecodeMatrix (createTilesFromKDNode lib node this) =
       instancedPrimitivesDecodeMatrix this"
proof (induction lib node this rule: createTilesFromKDNode.induct)
  case (1 lib box l r ents this)
  let ?this1 = "case ents of None \<Rightarrow> this
                | Some es \<Rightarrow> if length es > 0 then createTileFromEntities lib es box this else this"
  let ?this2 = "case l of None \<Rightarrow> ?this1 | Some lnode \<Rightarrow> createTilesFromKDNode lib lnode ?this1"
  let ?this3 = "case r of None \<Rightarrow> ?this2 | Some rnode \<Rightarrow> createTilesFromKDNode lib rnode ?this2"
  have a: "keepsReused (primitivesList this) (primitivesList ?this1)
           \<and> instancedPrimitivesDecodeMatrix ?this1 = instancedPrimitivesDecodeMatrix this"
    using createTileFromEntities_keeps by (auto simp: keepsReused_refl split: option.splits)
  have b: "keepsReused (primitivesList ?this1) (primitivesList ?this2)
           \<and> instancedPrimitivesDecodeMatrix ?this2 = instancedPrimitivesDecodeMatrix ?this1"
    using "1.IH"(1) [OF refl] by (cases l) (simp_all add: keepsReused_refl)
  have c: "keepsReused (primitivesList ?this2) (primitivesList ?this3)
           \<and> instancedPrimitivesDecodeMatrix ?this3 = instancedPrimitivesDecodeMatrix ?this2"
    using "1.IH"(2) [OF refl refl] by (cases r) (simp_all add: keepsReused_refl)
  have "createTilesFromKDNode lib (KDNode box l r ents) this = ?this3"
    by (simp add: Let_def)
  moreover have "keepsReused (primitivesList this) (primitivesList ?this3)"
    using a b c by (blast intro: keepsReused_trans)
  moreover have "instancedPrimitivesDecodeMatrix ?this3 = instancedPrimitivesDecodeMatrix this"
    using a b c by simp
  ultimately show ?case
    by simp
qed

lemma createTiles_keeps_reused:
  "keepsReused (primitivesList this) (primitivesList (createTiles lib this))
   \<and> instancedPrimitivesDecodeMatrix (createTiles lib this) = instancedPrimitivesDecodeMatrix this"
  by (simp add: createTiles_def createTilesFromKDTree_def createTilesFromKDNode_keeps)

subsection \<open>Running the tiler on the examples\<close>

lemmas tiler_eval =
  createKDTree_def forInValues_def forInKeys_def isArrayIndex_def isDigit_def decimalValue_def
  map_filter_def insertEntityIntoKDTree.simps splitDim_def kdTreeDimLength_def aabbLeft_def
  aabbRight_def new_KDNode_def pushEntity_def KD_TREE_MAX_DEPTH_def

lemma exampleFarEntity_eval:
  "exampleFarEntity =
     \<lparr>instancedPrimitivesDecodeMatrix = ref_identityMat4,
      primitives = [(''f'', 0)],
      primitivesList =
        [\<lparr>primitiveId = ''f'', primitiveIndex = 0, color = [1, 0, 0], opacity = 1, reused = False,
          positions = [2000, 2000, 2000, 2001, 2001, 2001], positionsQuantized = [0, 0, 0, 0, 0, 0],
          normalsOctEncoded = [0, 0, 0, 0, 0, 0], indices = [], edgeIndices = []\<rparr>],
      primitiveInstancesList = [\<lparr>primitiveInstanceIndex = 0, primitive = 0, entity = Some 0\<rparr>],
      entities = [(''far'', 0)],
      entitiesList =
        [\<lparr>entityId = ''far'', entityIndex = 0, matrix = ref_identityMat4, primitiveInstances = [0],
          aabb = [2000, 2000, 2000, 2001, 2001, 2001], hasReusedPrimitives = False\<rparr>],
      tilesList = []\<rparr>"
  by (simp add: exampleFarEntity_def builder_eval ref_eval)

lemma exampleFarEntity_tree:
  "createKDTree refLib exampleFarEntity =
     KDNode [2000, 2000, 2000, 2001, 2001, 2001]
       (Some (KDNode [2000, 2000, 2000, 4001 / 2, 2001, 2001] None None None))
       (Some (KDNode [4001 / 2, 2000, 2000, 2001, 2001, 2001] None None None))
       (Some [0])"
  by (simp add: exampleFarEntity_eval tiler_eval ref_eval)

text \<open>
  C1 says that a tile has the box of its kd-node, a decode matrix derived from that box, and
  entities whose boxes lie inside it; the documentation of \<^verbatim>\<open>_createTileFromEntities\<close> speaks of
  the tile's boundary likewise. The code overwrites the box it is given with the constant cube
  from -1000 to 1000, under the comment \<^verbatim>\<open>FIXME: aabb is broken\<close> (see
  \<open>createTileFromEntities_tile\<close>, which holds of every library). On \<open>exampleFarEntity\<close> the
  kd-node that holds the entity has the box from 2000 to 2001, the tile made from it has the
  cube, and the entity's box is not inside the tile's.
\<close>

theorem C1_tile_aabb_is_hard_coded:
  "kd_aabb (createKDTree refLib exampleFarEntity) = [2000, 2000, 2000, 2001, 2001, 2001]
   \<and> kd_entities (createKDTree refLib exampleFarEntity) = Some [0]
   \<and> map tile_aabb (tilesList (createTiles refLib exampleFarEntity)) =
        [[-1000, -1000, -1000, 1000, 1000, 1000]]
   \<and> map tile_entities (tilesList (createTiles refLib exampleFarEntity)) = [[0]]
   \<and> aabb (entitiesList (createTiles refLib exampleFarEntity) ! 0) = [2000, 2000, 2000, 2001, 2001, 2001]
   \<and> \<not> containsAABB3 refLib [-1000, -1000, -1000, 1000, 1000, 1000]
          (aabb (entitiesList (createTiles refLib exampleFarEntity) ! 0))"
  by (simp add: createTiles_def createTilesFromKDTree_def exampleFarEntity_tree
        createTileFromEntities_def Let_def)
     (simp add: exampleFarEntity_eval ref_eval)

subsection \<open>Reused primitives\<close>

lemma exampleReused_eval:
  "exampleReused =
     \<lparr>instancedPrimitivesDecodeMatrix = ref_identityMat4,
      primitives = [(''bolt'', 0)],
      primitivesList =
        [\<lparr>primitiveId = ''bolt'', primitiveIndex = 0, color = [1, 0, 0], opacity = 1, reused = True,
          positions = [0, 0, 0, 1, 1, 1], positionsQuantized = [0, 0, 0, 0, 0, 0],
          normalsOctEncoded = [0, 0, 0, 0, 0, 0], indices = [], edgeIndices = []\<rparr>],
      primitiveInstancesList =
        [\<lparr>primitiveInstanceIndex = 0, primitive = 0, entity = Some 0\<rparr>,
         \<lparr>primitiveInstanceIndex = 1, primitive = 0, entity = Some 1\<rparr>],
      entities = [(''A'', 0), (''B'', 1)],
      entitiesList =
        [\<lparr>entityId = ''A'', entityIndex = 0, matrix = exampleTranslate 100 0 0, primitiveInstances = [0],
          aabb = [100, 0, 0, 101, 1, 1], hasReusedPrimitives = True\<rparr>,
         \<lparr>entityId = ''B'', entityIndex = 1, matrix = exampleTranslate 0 0 100, primitiveInstances = [1],
          aabb = [0, 0, 100, 1, 1, 101], hasReusedPrimitives = True\<rparr>],
      tilesList = []\<rparr>"
  by (simp add: exampleReused_def exampleReusedCommands_def build_def builder_eval ref_eval
        exampleTranslate_def)

text \<open>
  C5 says that \<^verbatim>\<open>createTiles\<close> quantizes the positions of every reused primitive against the
  union of the boxes of the reused primitives and derives \<^verbatim>\<open>instancedPrimitivesDecodeMatrix\<close> from
  that union, as the documentation of \<^verbatim>\<open>Primitive.positionsQuantized\<close> and of
  \<^verbatim>\<open>Model.instancedPrimitivesDecodeMatrix\<close> does. The code does neither (see
  \<open>createTiles_keeps_reused\<close>, which holds of every library): on \<open>exampleReused\<close> the quantized
  positions of the reused primitive are the zeros of the constructor and the matrix is the
  identity of the constructor, where quantizing against the union box gives
  \<open>0, 0, 0, 65535, 65535, 65535\<close> and the decode matrix of that box has the scale \<open>1 / 65535\<close>.
\<close>

theorem C5_reused_primitives_are_not_quantized:
  "reused (primitivesList exampleReused ! 0)
   \<and> positions (primitivesList exampleReused ! 0) = [0, 0, 0, 1, 1, 1]
   \<and> map primitive (primitiveInstancesList exampleReused) = [0, 0]
   \<and> positionsQuantized (primitivesList (createTiles refLib exampleReused) ! 0) = [0, 0, 0, 0, 0, 0]
   \<and> instancedPrimitivesDecodeMatrix (createTiles refLib exampleReused) = ref_identityMat4
   \<and> typedArrayStores [0, 0, 0, 0, 0, 0]
        (quantizePositions refLib [0, 0, 0, 1, 1, 1] 6 [0, 0, 0, 1, 1, 1] [0, 0, 0, 0, 0, 0]) =
        [0, 0, 0, 65535, 65535, 65535]
   \<and> createPositionsDecodeMatrix refLib [0, 0, 0, 1, 1, 1] (mat4 refLib) =
        [1 / 65535, 0, 0, 0, 0, 1 / 65535, 0, 0, 0, 0, 1 / 65535, 0, 0, 0, 0, 1]"
proof -
  have k: "keepsReused (primitivesList exampleReused) (primitivesList (createTiles refLib exampleReused))"
    and d: "instancedPrimitivesDecodeMatrix (createTiles refLib exampleReused) =
            instancedPrimitivesDecodeMatrix exampleReused"
    using createTiles_keeps_reused [of exampleReused refLib] by simp_all
  have "primitivesList (createTiles refLib exampleReused) ! 0 = primitivesList exampleReused ! 0"
    using k by (simp add: keepsReused_def exampleReused_eval)
  then show ?thesis
    using d by (simp add: exampleReused_eval ref_eval typedArrayStores_def upt_rec)
qed

subsection \<open>Splitting a kd-node\<close>



lemma isLongestAxis_unique: "isLongestAxis box k \<Longrightarrow> isLongestAxis box k' \<Longrightarrow> k = k'"
proof (rule ccontr)
  assume a: "isLongestAxis box k" "isLongestAxis box k'" "k \<noteq> k'"
  then consider "k < k'" | "k' < k" by linarith
  then show False
  proof cases
    case 1
    then have "axisLength box k < axisLength box k'" "axisLength box k' \<le> axisLength box k"
      using a by (auto simp: isLongestAxis_def)
    then show False by simp
  next
    case 2
    then have "axisLength box k' < axisLength box k" "axisLength box k \<le> axisLength box k'"
      using a by (auto simp: isLongestAxis_def)
    then show False by simp
  qed
qed






section \<open>The order in which the tiler visits the entities\<close>











subsection \<open>Identifiers that are array indices\<close>






section \<open>Properties of the parser\<close>

subsection \<open>Geometry identifiers and the histogram\<close>

lemma decimalValue_snoc: "decimalValue (s @ [c]) = 10 * decimalValue s + (of_char c - 48)"
  by (simp add: decimalValue_def)

lemma of_char_digit: "m < 10 \<Longrightarrow> (of_char (char_of (48 + m)) :: nat) = 48 + m"
  by simp

lemma decimalValue_decimalString: "decimalValue (decimalString n) = n"
proof (induction n rule: decimalString.induct)
  case (1 n)
  show ?case
  proof (cases "n < 10")
    case True
    then show ?thesis
      by (subst decimalString.simps) (simp add: decimalValue_def)
  next
    case False
    have m: "n mod 10 < 10" by simp
    have "decimalValue (decimalString n) =
            10 * decimalValue (decimalString (n div 10)) + (of_char (char_of (48 + n mod 10)) - 48)"
      using False by (subst decimalString.simps) (simp add: decimalValue_snoc)
    then show ?thesis
      using 1 False of_char_digit [OF m] by simp
  qed
qed

lemma geometryIdOf_inj: "geometryIdOf k = geometryIdOf k' \<Longrightarrow> k = k'"
  by (metis geometryIdOf_def same_append_eq decimalValue_decimalString)





subsection \<open>One primitive instance\<close>




subsection \<open>The invariant\<close>

lemma geometryCallsOf_append [simp]:
  "geometryCallsOf (xs @ ys) = geometryCallsOf xs @ geometryCallsOf ys"
  by (induction xs rule: geometryCallsOf.induct) simp_all

lemma meshCallsOf_append [simp]: "meshCallsOf (xs @ ys) = meshCallsOf xs @ meshCallsOf ys"
  by (induction xs rule: meshCallsOf.induct) simp_all

lemma entityCallsOf_append [simp]: "entityCallsOf (xs @ ys) = entityCallsOf xs @ entityCallsOf ys"
  by (induction xs rule: entityCallsOf.induct) simp_all


lemma geometry_id_geometryOf [simp]: "geometry_id (geometryOf d k) = geometryIdOf k"
  by (simp add: geometryOf_def)

lemma geometryOf_eq_iff [simp]: "(geometryOf d k = geometryOf d k') = (k = k')"
  by (metis geometry_id_geometryOf geometryIdOf_inj)










subsection \<open>Entities and their meshes\<close>

lemma loadInstance_calls:
  "\<exists>new. calls (fst (loadInstance d counts tdm em (st, ms) j)) = calls st @ new
         \<and> entityCallsOf new = []
         \<and> snd (loadInstance d counts tdm em (st, ms) j) = ms @ map mesh_id (meshCallsOf new)"
  unfolding loadInstance_def Let_def by simp

lemma loadInstances_calls:
  "\<exists>new. calls (fst (foldl (loadInstance d counts tdm em) (st, ms) js)) = calls st @ new
         \<and> entityCallsOf new = []
         \<and> snd (foldl (loadInstance d counts tdm em) (st, ms) js) = ms @ map mesh_id (meshCallsOf new)"
proof (induction js arbitrary: st ms)
  case Nil
  show ?case by simp
next
  case (Cons j js)
  obtain st1 ms1 where s: "loadInstance d counts tdm em (st, ms) j = (st1, ms1)"
    by (cases "loadInstance d counts tdm em (st, ms) j")
  obtain new1 where n1: "calls st1 = calls st @ new1" "entityCallsOf new1 = []"
    "ms1 = ms @ map mesh_id (meshCallsOf new1)"
    using loadInstance_calls [of d counts tdm em st ms j] by (auto simp: s)
  obtain new2 where n2: "calls (fst (foldl (loadInstance d counts tdm em) (st1, ms1) js)) = calls st1 @ new2"
    "entityCallsOf new2 = []"
    "snd (foldl (loadInstance d counts tdm em) (st1, ms1) js) = ms1 @ map mesh_id (meshCallsOf new2)"
    using Cons [of st1 ms1] by blast
  show ?case
    by (rule exI [of _ "new1 @ new2"]) (use n2 in \<open>simp add: s n1\<close>)
qed

text \<open>
  C9. For every entity that \<^verbatim>\<open>load\<close> decodes, in whatever state and with whatever index, the
  calls it adds for the entity contain a call of \<^verbatim>\<open>createEntity\<close> if and only if they contain a
  call of \<^verbatim>\<open>createMesh\<close>; when they do, it is one call, with the entity's identifier and the
  identifiers of those meshes.
\<close>

theorem C9_entity_created_iff_meshes:
  "\<exists>new. calls (loadEntity d counts tdm st i) = calls st @ new
     \<and> entityCallsOf new =
         (if meshCallsOf new = [] then []
          else [\<lparr>entity_id = elementAt (xkt_eachEntityId d) (Some i), entity_isObject = True,
                 entity_meshIds = map mesh_id (meshCallsOf new)\<rparr>])"
proof -
  let ?em = "case elementAt (xkt_eachEntityMatricesPortion d) (Some i) of None \<Rightarrow> []
             | Some k \<Rightarrow> subarray (xkt_matrices d) (unat k) (unat k + 16)"
  let ?js = "forRange (map_option unat (elementAt (xkt_eachEntityPrimitiveInstancesPortion d) (Some i)))
               (if i + 1 = length (xkt_eachEntityId d) then Some (length (xkt_primitiveInstances d))
                else map_option unat (elementAt (xkt_eachEntityPrimitiveInstancesPortion d) (Some (i + 1))))"
  let ?acc = "foldl (loadInstance d counts tdm ?em) (st, []) ?js"
  obtain new where n: "calls (fst ?acc) = calls st @ new" "entityCallsOf new = []"
    "snd ?acc = map mesh_id (meshCallsOf new)"
    using loadInstances_calls [of d counts tdm ?em st "[]" ?js] by auto
  show ?thesis
  proof (cases "meshCallsOf new = []")
    case True
    then show ?thesis
      unfolding loadEntity_def Let_def using n by (intro exI [of _ new]) simp
  next
    case False
    then show ?thesis
      unfolding loadEntity_def Let_def using n
      by (intro exI [of _ "new @ [CreateEntity \<lparr>entity_id = elementAt (xkt_eachEntityId d) (Some i),
            entity_isObject = True, entity_meshIds = map mesh_id (meshCallsOf new)\<rparr>]"]) simp
  qed
qed

subsection \<open>Instanced and single-use primitives\<close>



subsection \<open>Running the parser on the example\<close>

lemma exampleInflated_load:
  "load exampleInflated =
     [CreateGeometry (geometryOf exampleInflated 0),
      CreateMesh (instancedMeshOf 0 0 (exampleTranslate 100 0 0)),
      CreateEntity \<lparr>entity_id = Some ''A'', entity_isObject = True, entity_meshIds = [0]\<rparr>,
      CreateMesh (instancedMeshOf 1 0 (exampleTranslate 0 0 100)),
      CreateEntity \<lparr>entity_id = Some ''B'', entity_isObject = True, entity_meshIds = [1]\<rparr>,
      CreateMesh (inlineMeshOf exampleInflated 2 1 (xkt_eachTileDecodeMatrix exampleInflated)),
      CreateEntity \<lparr>entity_id = Some ''C'', entity_isObject = True, entity_meshIds = [2]\<rparr>]"
  by (simp add: load_def loadTile_def loadEntity_def loadInstance_def countInstances_def Let_def
        exampleInflated_def forRange_def elementAt_def subarray_def primitiveSlice_def upt_rec
        decompressColor_def geometryOf_def instancedMeshOf_def inlineMeshOf_def sliceOf_def
        geometryIdOf_def numPrimitivesOf_def exampleTranslate_def ref_identityMat4_def
        decimalString.simps)



text \<open>C9 on the example: the entity \<open>D\<close>, which has no instance, gets no call at all, and the
  other three get one call of \<^verbatim>\<open>createEntity\<close> each.\<close>

theorem C9_entity_created_iff_meshes_witness:
  "xkt_eachEntityId exampleInflated = [''A'', ''B'', ''D'', ''C'']
   \<and> entityCallsOf (load exampleInflated) =
       [\<lparr>entity_id = Some ''A'', entity_isObject = True, entity_meshIds = [0]\<rparr>,
        \<lparr>entity_id = Some ''B'', entity_isObject = True, entity_meshIds = [1]\<rparr>,
        \<lparr>entity_id = Some ''C'', entity_isObject = True, entity_meshIds = [2]\<rparr>]
   \<and> calls (loadEntity exampleInflated
               (countInstances (numPrimitivesOf exampleInflated) (xkt_primitiveInstances exampleInflated))
               (xkt_eachTileDecodeMatrix exampleInflated)
               \<lparr>geometryCreated = [], nextMeshId = 0, calls = []\<rparr> 2) = []"
proof -
  have "calls (loadEntity exampleInflated
               (countInstances (numPrimitivesOf exampleInflated) (xkt_primitiveInstances exampleInflated))
               (xkt_eachTileDecodeMatrix exampleInflated)
               \<lparr>geometryCreated = [], nextMeshId = 0, calls = []\<rparr> 2) = []"
    by (simp add: loadEntity_def Let_def exampleInflated_def elementAt_def forRange_def)
  then show ?thesis
    using C9_entity_created_iff_meshes [of exampleInflated
      "countInstances (numPrimitivesOf exampleInflated) (xkt_primitiveInstances exampleInflated)"
      "xkt_eachTileDecodeMatrix exampleInflated" "\<lparr>geometryCreated = [], nextMeshId = 0, calls = []\<rparr>" 2]
    by (simp add: exampleInflated_load) (simp add: exampleInflated_def)
qed

end
